theory Spec2Isabelle
  imports Main "HOL-Library.AList"
begin

section \<open>Time, groups, messages and errors\<close>

text \<open>
  A \<^verbatim>\<open>time.Time\<close> is an integer number of nanoseconds counted from the zero value
  \<^verbatim>\<open>time.Time{}\<close>, so the zero time is \<open>0\<close> and \<^verbatim>\<open>t.Before(u)\<close> is \<open>t < u\<close>.
  A \<^verbatim>\<open>time.Duration\<close> is a signed number of nanoseconds.
\<close>

type_synonym time = int
type_synonym duration = int
type_synonym GroupID = string
type_synonym payload = string
type_synonym StatsEdge = nat

record GroupInfo =
  ID :: GroupID
  Tags :: "(string \<times> string) list"

record PointMeta =
  Name :: string

text \<open>
  The six message kinds a receiver handles. Only what barrier.go reads is kept: the time of
  a point, batch point or barrier, the group of a barrier and of a deletion; the rest of a
  message is an opaque payload.
\<close>

datatype Message =
    BeginBatchMessage payload
  | BatchPointMessage time payload
  | EndBatchMessage payload
  | BarrierMessage GroupInfo time
  | DeleteGroupMessage GroupID
  | PointMessage time payload

text \<open>
  \<open>Error\<close> is an error value a function returns (\<^verbatim>\<open>errors.New\<close>), \<open>Panic\<close> a run-time
  panic, and \<open>Blocked\<close> an operation that cannot proceed in the state it is called in
  (a send on a full channel, a receive on an empty open one, a wait on a non-zero counter).
\<close>

datatype error = Error string | Panic string | Blocked

type_synonym 'a result = "error + 'a"

section \<open>Channels, timers and tickers\<close>

record chan =
  chan_len :: nat
  chan_cap :: nat
  chan_closed :: bool

definition make_chan :: "nat \<Rightarrow> chan" where
  "make_chan n = \<lparr>chan_len = 0, chan_cap = n, chan_closed = False\<rparr>"

definition chan_close :: "chan \<Rightarrow> chan result" where
  "chan_close c =
     (if chan_closed c then Inl (Panic ''close of closed channel'')
      else Inr (c\<lparr>chan_closed := True\<rparr>))"

definition chan_send :: "chan \<Rightarrow> chan result" where
  "chan_send c =
     (if chan_closed c then Inl (Panic ''send on closed channel'')
      else if chan_len c < chan_cap c then Inr (c\<lparr>chan_len := chan_len c + 1\<rparr>)
      else Inl Blocked)"

definition chan_recv :: "chan \<Rightarrow> chan result" where
  "chan_recv c =
     (if 0 < chan_len c then Inr (c\<lparr>chan_len := chan_len c - 1\<rparr>)
      else if chan_closed c then Inr c
      else Inl Blocked)"

text \<open>
  A \<^verbatim>\<open>time.Timer\<close> or \<^verbatim>\<open>time.Ticker\<close>: \<open>t_armed\<close> is the duration it is armed with
  (\<open>None\<close> once stopped or, for a timer, expired), and \<open>t_C\<close> says that a value waits in
  its channel \<^verbatim>\<open>C\<close> (capacity one; \<^verbatim>\<open>Reset\<close> and \<^verbatim>\<open>Stop\<close> do not drain it).
  \<^verbatim>\<open>time.NewTicker\<close> panics on a non-positive duration, \<^verbatim>\<open>time.NewTimer\<close> takes any.
\<close>

record Timer =
  t_armed :: "duration option"
  t_C :: bool

definition NewTimer :: "duration \<Rightarrow> Timer" where
  "NewTimer d = \<lparr>t_armed = Some d, t_C = False\<rparr>"

definition NewTicker :: "duration \<Rightarrow> Timer result" where
  "NewTicker d =
     (if d \<le> 0 then Inl (Panic ''non-positive interval for NewTicker'')
      else Inr \<lparr>t_armed = Some d, t_C = False\<rparr>)"

definition Timer_Reset :: "duration \<Rightarrow> Timer \<Rightarrow> Timer" where
  "Timer_Reset d t = t\<lparr>t_armed := Some d\<rparr>"

definition Timer_Stop :: "Timer \<Rightarrow> Timer" where
  "Timer_Stop t = t\<lparr>t_armed := None\<rparr>"

text \<open>The runtime's side: an armed timer expires, an armed ticker ticks.\<close>

definition Timer_expire :: "Timer \<Rightarrow> Timer result" where
  "Timer_expire t =
     (if t_armed t = None then Inl Blocked else Inr \<lparr>t_armed = None, t_C = True\<rparr>)"

definition Ticker_tick :: "Timer \<Rightarrow> Timer result" where
  "Ticker_tick t =
     (if t_armed t = None then Inl Blocked else Inr (t\<lparr>t_C := True\<rparr>))"

section \<open>The idle barrier\<close>

text \<open>
  The struct \<^verbatim>\<open>idleBarrier\<close>. \<open>ib_lastT\<close> is the \<^verbatim>\<open>atomic.Value\<close>: \<open>None\<close> while
  nothing is stored (a \<^verbatim>\<open>Load().(time.Time)\<close> then panics). \<open>ib_wg\<close> is the counter of the
  \<^verbatim>\<open>sync.WaitGroup\<close>.
\<close>

record idleBarrier =
  ib_name :: string
  ib_group :: GroupInfo
  ib_idle :: duration
  ib_lastT :: "time option"
  ib_timer :: Timer
  ib_wg :: nat
  ib_outs :: "StatsEdge list"
  ib_stopC :: chan

text \<open>
  \<^verbatim>\<open>Init\<close> stores the zero time, adds one to the wait group and starts \<^verbatim>\<open>idleHandler\<close>;
  the started goroutine is the component \<open>bg\<close> of the transition system further down.
\<close>

definition idleBarrier_Init :: "idleBarrier \<Rightarrow> idleBarrier" where
  "idleBarrier_Init n = n\<lparr>ib_lastT := Some 0, ib_wg := ib_wg n + 1\<rparr>"

definition newIdleBarrier ::
  "string \<Rightarrow> GroupInfo \<Rightarrow> duration \<Rightarrow> StatsEdge list \<Rightarrow> idleBarrier" where
  "newIdleBarrier name grp idle outs =
     idleBarrier_Init
       \<lparr>ib_name = name, ib_group = grp, ib_idle = idle, ib_lastT = None,
        ib_timer = NewTimer idle, ib_wg = 0, ib_outs = outs, ib_stopC = make_chan 1\<rparr>"

definition idleBarrier_resetTimer :: "idleBarrier \<Rightarrow> idleBarrier" where
  "idleBarrier_resetTimer n = n\<lparr>ib_timer := Timer_Reset (ib_idle n) (ib_timer n)\<rparr>"

definition nil_Time :: error where
  "nil_Time = Panic ''interface conversion: interface {} is nil, not time.Time''"

definition idleBarrier_BeginBatch ::
  "idleBarrier \<Rightarrow> payload \<Rightarrow> (Message option \<times> idleBarrier) result" where
  "idleBarrier_BeginBatch n p = Inr (Some (BeginBatchMessage p), n)"

definition idleBarrier_BatchPoint ::
  "idleBarrier \<Rightarrow> time \<Rightarrow> payload \<Rightarrow> (Message option \<times> idleBarrier) result" where
  "idleBarrier_BatchPoint n t p =
     (case ib_lastT n of
        None \<Rightarrow> Inl nil_Time
      | Some T \<Rightarrow>
          if \<not> t < T then Inr (Some (BatchPointMessage t p), idleBarrier_resetTimer n)
          else Inr (None, n))"

definition idleBarrier_EndBatch ::
  "idleBarrier \<Rightarrow> payload \<Rightarrow> (Message option \<times> idleBarrier) result" where
  "idleBarrier_EndBatch n p = Inr (Some (EndBatchMessage p), n)"

definition idleBarrier_Barrier ::
  "idleBarrier \<Rightarrow> GroupInfo \<Rightarrow> time \<Rightarrow> (Message option \<times> idleBarrier) result" where
  "idleBarrier_Barrier n g t =
     (case ib_lastT n of
        None \<Rightarrow> Inl nil_Time
      | Some T \<Rightarrow>
          if \<not> t < T then Inr (Some (BarrierMessage g t), idleBarrier_resetTimer n)
          else Inr (None, n))"

definition idleBarrier_Point ::
  "idleBarrier \<Rightarrow> time \<Rightarrow> payload \<Rightarrow> (Message option \<times> idleBarrier) result" where
  "idleBarrier_Point n t p =
     (case ib_lastT n of
        None \<Rightarrow> Inl nil_Time
      | Some T \<Rightarrow>
          if \<not> t < T then Inr (Some (PointMessage t p), idleBarrier_resetTimer n)
          else Inr (None, n))"

text \<open>
  \<^verbatim>\<open>emitBarrier\<close> reads the clock (\<open>nowT\<close>, supplied by the caller of the model), stores
  it and returns what \<^verbatim>\<open>edge.Forward\<close> returns. \<^verbatim>\<open>edge.Forward\<close> is a parameter:
  \<open>forward outs m\<close> is \<open>None\<close> when every edge took the message, \<open>Some e\<close> otherwise.
\<close>

definition idleBarrier_emitBarrier ::
  "idleBarrier \<Rightarrow> time \<Rightarrow> (StatsEdge list \<Rightarrow> Message \<Rightarrow> error option)
     \<Rightarrow> error option \<times> idleBarrier" where
  "idleBarrier_emitBarrier n nowT forward =
     (forward (ib_outs n) (BarrierMessage (ib_group n) nowT), n\<lparr>ib_lastT := Some nowT\<rparr>)"

text \<open>
  \<^verbatim>\<open>Stop\<close> as one call of the consumer goroutine: \<^verbatim>\<open>close(n.stopC)\<close>,
  \<^verbatim>\<open>n.timer.Stop()\<close>, \<^verbatim>\<open>n.wg.Wait()\<close>. The wait is summarised by the schedule in
  which \<^verbatim>\<open>idleHandler\<close> takes its \<^verbatim>\<open>stopC\<close> case next and runs its deferred
  \<^verbatim>\<open>wg.Done()\<close>; with no goroutine left (counter zero) it returns at once. Every other
  schedule is a run of the transition system \<open>idle_fire\<close>.
\<close>

definition idleBarrier_Wait :: "idleBarrier \<Rightarrow> idleBarrier result" where
  "idleBarrier_Wait n =
     (if ib_wg n = 0 then Inr n
      else (case chan_recv (ib_stopC n) of
              Inl e \<Rightarrow> Inl e
            | Inr c \<Rightarrow> Inr (n\<lparr>ib_stopC := c, ib_wg := ib_wg n - 1\<rparr>)))"

definition idleBarrier_Stop :: "idleBarrier \<Rightarrow> idleBarrier result" where
  "idleBarrier_Stop n =
     (case chan_close (ib_stopC n) of
        Inl e \<Rightarrow> Inl e
      | Inr c \<Rightarrow> idleBarrier_Wait (n\<lparr>ib_stopC := c, ib_timer := Timer_Stop (ib_timer n)\<rparr>))"

definition idleBarrier_DeleteGroup ::
  "idleBarrier \<Rightarrow> GroupID \<Rightarrow> (Message option \<times> idleBarrier) result" where
  "idleBarrier_DeleteGroup n gid =
     (if gid = ID (ib_group n) then
        (case idleBarrier_Stop n of
           Inl e \<Rightarrow> Inl e
         | Inr n' \<Rightarrow> Inr (Some (DeleteGroupMessage gid), n'))
      else Inr (Some (DeleteGroupMessage gid), n))"

section \<open>The periodic barrier\<close>

record periodicBarrier =
  pb_name :: string
  pb_group :: GroupInfo
  pb_lastT :: "time option"
  pb_ticker :: Timer
  pb_wg :: nat
  pb_outs :: "StatsEdge list"
  pb_stopC :: chan

definition periodicBarrier_Init :: "periodicBarrier \<Rightarrow> periodicBarrier" where
  "periodicBarrier_Init n = n\<lparr>pb_lastT := Some 0, pb_wg := pb_wg n + 1\<rparr>"

definition newPeriodicBarrier ::
  "string \<Rightarrow> GroupInfo \<Rightarrow> duration \<Rightarrow> StatsEdge list \<Rightarrow> periodicBarrier result" where
  "newPeriodicBarrier name grp period outs =
     (case NewTicker period of
        Inl e \<Rightarrow> Inl e
      | Inr tk \<Rightarrow>
          Inr (periodicBarrier_Init
                 \<lparr>pb_name = name, pb_group = grp, pb_lastT = None, pb_ticker = tk,
                  pb_wg = 0, pb_outs = outs, pb_stopC = make_chan 1\<rparr>))"

definition periodicBarrier_BeginBatch ::
  "periodicBarrier \<Rightarrow> payload \<Rightarrow> (Message option \<times> periodicBarrier) result" where
  "periodicBarrier_BeginBatch n p = Inr (Some (BeginBatchMessage p), n)"

definition periodicBarrier_BatchPoint ::
  "periodicBarrier \<Rightarrow> time \<Rightarrow> payload \<Rightarrow> (Message option \<times> periodicBarrier) result" where
  "periodicBarrier_BatchPoint n t p =
     (case pb_lastT n of
        None \<Rightarrow> Inl nil_Time
      | Some T \<Rightarrow>
          if \<not> t < T then Inr (Some (BatchPointMessage t p), n) else Inr (None, n))"

definition periodicBarrier_EndBatch ::
  "periodicBarrier \<Rightarrow> payload \<Rightarrow> (Message option \<times> periodicBarrier) result" where
  "periodicBarrier_EndBatch n p = Inr (Some (EndBatchMessage p), n)"

definition periodicBarrier_Barrier ::
  "periodicBarrier \<Rightarrow> GroupInfo \<Rightarrow> time \<Rightarrow> (Message option \<times> periodicBarrier) result" where
  "periodicBarrier_Barrier n g t =
     (case pb_lastT n of
        None \<Rightarrow> Inl nil_Time
      | Some T \<Rightarrow>
          if \<not> t < T then Inr (Some (BarrierMessage g t), n) else Inr (None, n))"

definition periodicBarrier_Point ::
  "periodicBarrier \<Rightarrow> time \<Rightarrow> payload \<Rightarrow> (Message option \<times> periodicBarrier) result" where
  "periodicBarrier_Point n t p =
     (case pb_lastT n of
        None \<Rightarrow> Inl nil_Time
      | Some T \<Rightarrow>
          if \<not> t < T then Inr (Some (PointMessage t p), n) else Inr (None, n))"

definition periodicBarrier_emitBarrier ::
  "periodicBarrier \<Rightarrow> time \<Rightarrow> (StatsEdge list \<Rightarrow> Message \<Rightarrow> error option)
     \<Rightarrow> error option \<times> periodicBarrier" where
  "periodicBarrier_emitBarrier n nowT forward =
     (forward (pb_outs n) (BarrierMessage (pb_group n) nowT), n\<lparr>pb_lastT := Some nowT\<rparr>)"

text \<open>
  \<^verbatim>\<open>Stop\<close>: \<^verbatim>\<open>n.stopC <- true\<close>, \<^verbatim>\<open>n.ticker.Stop()\<close>, \<^verbatim>\<open>n.wg.Wait()\<close>, the wait
  summarised as for the idle barrier: \<^verbatim>\<open>periodicEmitter\<close> receives the value and returns.
\<close>

definition periodicBarrier_Wait :: "periodicBarrier \<Rightarrow> periodicBarrier result" where
  "periodicBarrier_Wait n =
     (if pb_wg n = 0 then Inr n
      else (case chan_recv (pb_stopC n) of
              Inl e \<Rightarrow> Inl e
            | Inr c \<Rightarrow> Inr (n\<lparr>pb_stopC := c, pb_wg := pb_wg n - 1\<rparr>)))"

definition periodicBarrier_Stop :: "periodicBarrier \<Rightarrow> periodicBarrier result" where
  "periodicBarrier_Stop n =
     (case chan_send (pb_stopC n) of
        Inl e \<Rightarrow> Inl e
      | Inr c \<Rightarrow>
          periodicBarrier_Wait (n\<lparr>pb_stopC := c, pb_ticker := Timer_Stop (pb_ticker n)\<rparr>))"

definition periodicBarrier_DeleteGroup ::
  "periodicBarrier \<Rightarrow> GroupID \<Rightarrow> (Message option \<times> periodicBarrier) result" where
  "periodicBarrier_DeleteGroup n gid =
     (if gid = ID (pb_group n) then
        (case periodicBarrier_Stop n of
           Inl e \<Rightarrow> Inl e
         | Inr n' \<Rightarrow> Inr (Some (DeleteGroupMessage gid), n'))
      else Inr (Some (DeleteGroupMessage gid), n))"

section \<open>The barrier node\<close>

text \<open>
  \<^verbatim>\<open>pipeline.BarrierNode\<close> carries the two configured durations. A \<^verbatim>\<open>BarrierNode\<close>
  keeps it in \<open>bn_b\<close> (the field \<^verbatim>\<open>b\<close>), the output edges of the embedded \<^verbatim>\<open>node\<close> in
  \<open>bn_outs\<close>, and \<^verbatim>\<open>barrierStopper\<close> as an association list from group to the address
  of the emitter whose \<^verbatim>\<open>Stop\<close> method the map holds. Emitters live in a heap, a list
  indexed by address, since the receiver handed to the consumer and the stop function in
  the map are the same object.
\<close>

record pipeline_BarrierNode =
  Idle :: duration
  Period :: duration

record BarrierNode =
  bn_b :: pipeline_BarrierNode
  bn_outs :: "StatsEdge list"
  bn_barrierStopper :: "(GroupID \<times> nat) list"

datatype emitter = IdleE idleBarrier | PeriodicE periodicBarrier

type_synonym heap = "emitter list"

definition newBarrierNode :: "pipeline_BarrierNode \<Rightarrow> BarrierNode result" where
  "newBarrierNode n =
     (if Idle n = 0 \<and> Period n = 0 then
        Inl (Error ''barrier node must have either a non zero idle or a non zero period'')
      else Inr \<lparr>bn_b = n, bn_outs = [], bn_barrierStopper = []\<rparr>)"

definition newBarrier :: "BarrierNode \<Rightarrow> GroupInfo \<Rightarrow> PointMeta \<Rightarrow> emitter result" where
  "newBarrier n grp first =
     (if Idle (bn_b n) \<noteq> 0 then
        Inr (IdleE (newIdleBarrier (Name first) grp (Idle (bn_b n)) (bn_outs n)))
      else if Period (bn_b n) \<noteq> 0 then
        (case newPeriodicBarrier (Name first) grp (Period (bn_b n)) (bn_outs n) of
           Inl e \<Rightarrow> Inl e
         | Inr r \<Rightarrow> Inr (PeriodicE r))
      else
        Inl (Error
          ''unreachable code, barrier node should have non-zero idle or non-zero period''))"

text \<open>
  \<^verbatim>\<open>NewGroup\<close> returns the address of the new emitter (the receiver wraps it), the node
  with the stop function registered under the group, and the heap with the emitter added.
\<close>

definition NewGroup ::
  "BarrierNode \<Rightarrow> heap \<Rightarrow> GroupInfo \<Rightarrow> PointMeta \<Rightarrow> (nat \<times> BarrierNode \<times> heap) result" where
  "NewGroup n h grp first =
     (case newBarrier n grp first of
        Inl e \<Rightarrow> Inl e
      | Inr r \<Rightarrow>
          Inr (length h,
               n\<lparr>bn_barrierStopper :=
                   AList.update (ID grp) (length h) (bn_barrierStopper n)\<rparr>,
               h @ [r]))"

text \<open>
  Method calls through the interface value: the receiver \<^verbatim>\<open>r\<close> and the stop function
  \<^verbatim>\<open>r.Stop\<close> that \<^verbatim>\<open>newBarrier\<close> returns are the same emitter.
\<close>

definition emitter_Stop :: "emitter \<Rightarrow> emitter result" where
  "emitter_Stop e =
     (case e of
        IdleE n \<Rightarrow> (case idleBarrier_Stop n of Inl x \<Rightarrow> Inl x | Inr n' \<Rightarrow> Inr (IdleE n'))
      | PeriodicE n \<Rightarrow>
          (case periodicBarrier_Stop n of Inl x \<Rightarrow> Inl x | Inr n' \<Rightarrow> Inr (PeriodicE n')))"

definition emitter_DeleteGroup ::
  "emitter \<Rightarrow> GroupID \<Rightarrow> (Message option \<times> emitter) result" where
  "emitter_DeleteGroup e gid =
     (case e of
        IdleE n \<Rightarrow>
          (case idleBarrier_DeleteGroup n gid of
             Inl x \<Rightarrow> Inl x
           | Inr (m, n') \<Rightarrow> Inr (m, IdleE n'))
      | PeriodicE n \<Rightarrow>
          (case periodicBarrier_DeleteGroup n gid of
             Inl x \<Rightarrow> Inl x
           | Inr (m, n') \<Rightarrow> Inr (m, PeriodicE n')))"

text \<open>
  A call on the emitter at address \<open>a\<close> of the heap; a nil or dangling receiver panics.
\<close>

definition nil_deref :: error where
  "nil_deref = Panic ''invalid memory address or nil pointer dereference''"

definition heap_Stop :: "nat \<Rightarrow> heap \<Rightarrow> heap result" where
  "heap_Stop a h =
     (if a < length h then
        (case emitter_Stop (h ! a) of Inl x \<Rightarrow> Inl x | Inr e' \<Rightarrow> Inr (h[a := e']))
      else Inl nil_deref)"

definition heap_DeleteGroup :: "nat \<Rightarrow> GroupID \<Rightarrow> heap \<Rightarrow> (Message option \<times> heap) result" where
  "heap_DeleteGroup a gid h =
     (if a < length h then
        (case emitter_DeleteGroup (h ! a) gid of
           Inl x \<Rightarrow> Inl x
         | Inr (m, e') \<Rightarrow> Inr (m, h[a := e']))
      else Inl nil_deref)"

text \<open>
  \<^verbatim>\<open>stopBarrierEmitter\<close> calls every stop function of the map; a panic ends the loop.
  Go ranges over a map in no fixed order: the model takes the order of the association
  list.
\<close>

fun stopAll :: "nat list \<Rightarrow> heap \<Rightarrow> heap result" where
  "stopAll [] h = Inr h"
| "stopAll (a # as) h = (case heap_Stop a h of Inl x \<Rightarrow> Inl x | Inr h' \<Rightarrow> stopAll as h')"

definition stopBarrierEmitter :: "BarrierNode \<Rightarrow> heap \<Rightarrow> heap result" where
  "stopBarrierEmitter n h = stopAll (map snd (bn_barrierStopper n)) h"

section \<open>The background goroutine and its schedules\<close>

text \<open>
  One emitter with its two goroutines and the runtime, as a transition system. \<open>bg\<close> is
  where the background goroutine (\<^verbatim>\<open>idleHandler\<close>, \<^verbatim>\<open>periodicEmitter\<close>) stands: at its
  \<^verbatim>\<open>select\<close>, before \<^verbatim>\<open>emitBarrier\<close>, before \<^verbatim>\<open>resetTimer\<close> (idle only), or
  returned. \<open>stopper\<close> is where the consumer goroutine stands inside \<^verbatim>\<open>Stop\<close>.
  \<open>emitted\<close> lists the barrier messages the background goroutine handed to
  \<^verbatim>\<open>edge.Forward\<close>, \<open>returned\<close> counts the calls of \<^verbatim>\<open>Stop\<close> that have returned.
\<close>

datatype bg_pc = AtSelect | AtEmit | AtReset | Exited

datatype stop_pc = NotStopping | AfterSignal | AfterTimerStop

record 'e sys =
  em :: 'e
  bg :: bg_pc
  stopper :: stop_pc
  emitted :: "Message list"
  returned :: nat

text \<open>
  The steps. Of the consumer goroutine: a message handed to its handler, and the three
  statements of \<^verbatim>\<open>Stop\<close>. Of the runtime: the timer expires or the ticker ticks. Of the
  background goroutine: the \<^verbatim>\<open>select\<close> takes the timer case, \<^verbatim>\<open>emitBarrier\<close> (with the
  clock reading and the behaviour of \<^verbatim>\<open>edge.Forward\<close>), \<^verbatim>\<open>resetTimer\<close>, and the
  \<^verbatim>\<open>select\<close> takes the stop case, which returns and runs the deferred \<^verbatim>\<open>wg.Done()\<close>.
\<close>

datatype action =
    Deliver Message
  | StopSignal
  | StopTimer
  | StopWait
  | TimerFire
  | TaskTimer
  | TaskEmit time "StatsEdge list \<Rightarrow> Message \<Rightarrow> error option"
  | TaskReset
  | TaskStop

text \<open>
  Modelled from the spec: the receiver built by
  \<^verbatim>\<open>edge.NewReceiverFromForwardReceiverWithStats\<close> (package edge is not among the
  sources) routes every message of the group to the handler of its kind: begin-batch,
  batch-point, end-batch, barrier, point and group-deletion.
\<close>

fun idleBarrier_receive ::
  "idleBarrier \<Rightarrow> Message \<Rightarrow> (Message option \<times> idleBarrier) result" where
  "idleBarrier_receive n (BeginBatchMessage p) = idleBarrier_BeginBatch n p"
| "idleBarrier_receive n (BatchPointMessage t p) = idleBarrier_BatchPoint n t p"
| "idleBarrier_receive n (EndBatchMessage p) = idleBarrier_EndBatch n p"
| "idleBarrier_receive n (BarrierMessage g t) = idleBarrier_Barrier n g t"
| "idleBarrier_receive n (DeleteGroupMessage gid) = idleBarrier_DeleteGroup n gid"
| "idleBarrier_receive n (PointMessage t p) = idleBarrier_Point n t p"

fun periodicBarrier_receive ::
  "periodicBarrier \<Rightarrow> Message \<Rightarrow> (Message option \<times> periodicBarrier) result" where
  "periodicBarrier_receive n (BeginBatchMessage p) = periodicBarrier_BeginBatch n p"
| "periodicBarrier_receive n (BatchPointMessage t p) = periodicBarrier_BatchPoint n t p"
| "periodicBarrier_receive n (EndBatchMessage p) = periodicBarrier_EndBatch n p"
| "periodicBarrier_receive n (BarrierMessage g t) = periodicBarrier_Barrier n g t"
| "periodicBarrier_receive n (DeleteGroupMessage gid) = periodicBarrier_DeleteGroup n gid"
| "periodicBarrier_receive n (PointMessage t p) = periodicBarrier_Point n t p"

definition own_delete :: "GroupInfo \<Rightarrow> Message \<Rightarrow> bool" where
  "own_delete g m = (case m of DeleteGroupMessage gid \<Rightarrow> gid = ID g | _ \<Rightarrow> False)"

subsection \<open>Idle\<close>

definition idle_signal :: "idleBarrier sys \<Rightarrow> idleBarrier sys result" where
  "idle_signal s =
     (if stopper s \<noteq> NotStopping then Inl Blocked
      else (case chan_close (ib_stopC (em s)) of
              Inl x \<Rightarrow> Inl x
            | Inr c \<Rightarrow> Inr (s\<lparr>em := (em s)\<lparr>ib_stopC := c\<rparr>, stopper := AfterSignal\<rparr>)))"

text \<open>
  A deletion of the emitter's own group enters \<^verbatim>\<open>Stop\<close>, whose statements are steps of
  their own; every other message is handled in one step.
\<close>

fun idle_fire :: "action \<Rightarrow> idleBarrier sys \<Rightarrow> idleBarrier sys result" where
  "idle_fire (Deliver m) s =
     (if own_delete (ib_group (em s)) m then idle_signal s
      else if stopper s \<noteq> NotStopping then Inl Blocked
      else (case idleBarrier_receive (em s) m of
              Inl x \<Rightarrow> Inl x
            | Inr (out, n') \<Rightarrow> Inr (s\<lparr>em := n'\<rparr>)))"
| "idle_fire StopSignal s = idle_signal s"
| "idle_fire StopTimer s =
     (if stopper s = AfterSignal then
        Inr (s\<lparr>em := (em s)\<lparr>ib_timer := Timer_Stop (ib_timer (em s))\<rparr>,
               stopper := AfterTimerStop\<rparr>)
      else Inl Blocked)"
| "idle_fire StopWait s =
     (if stopper s = AfterTimerStop \<and> ib_wg (em s) = 0 then
        Inr (s\<lparr>stopper := NotStopping, returned := returned s + 1\<rparr>)
      else Inl Blocked)"
| "idle_fire TimerFire s =
     (case Timer_expire (ib_timer (em s)) of
        Inl x \<Rightarrow> Inl x
      | Inr t \<Rightarrow> Inr (s\<lparr>em := (em s)\<lparr>ib_timer := t\<rparr>\<rparr>))"
| "idle_fire TaskTimer s =
     (if bg s = AtSelect \<and> t_C (ib_timer (em s)) then
        Inr (s\<lparr>em := (em s)\<lparr>ib_timer := (ib_timer (em s))\<lparr>t_C := False\<rparr>\<rparr>, bg := AtEmit\<rparr>)
      else Inl Blocked)"
| "idle_fire (TaskEmit nowT forward) s =
     (if bg s = AtEmit then
        Inr (s\<lparr>em := snd (idleBarrier_emitBarrier (em s) nowT forward),
               bg := AtReset,
               emitted := emitted s @ [BarrierMessage (ib_group (em s)) nowT]\<rparr>)
      else Inl Blocked)"
| "idle_fire TaskReset s =
     (if bg s = AtReset then Inr (s\<lparr>em := idleBarrier_resetTimer (em s), bg := AtSelect\<rparr>)
      else Inl Blocked)"
| "idle_fire TaskStop s =
     (if bg s = AtSelect then
        (case chan_recv (ib_stopC (em s)) of
           Inl x \<Rightarrow> Inl x
         | Inr c \<Rightarrow>
             if ib_wg (em s) = 0 then Inl (Panic ''sync: negative WaitGroup counter'')
             else Inr (s\<lparr>em := (em s)\<lparr>ib_stopC := c, ib_wg := ib_wg (em s) - 1\<rparr>,
                        bg := Exited\<rparr>))
      else Inl Blocked)"

text \<open>The state when \<^verbatim>\<open>newIdleBarrier\<close> returns: the goroutine started, at its select.\<close>

definition idle_init ::
  "string \<Rightarrow> GroupInfo \<Rightarrow> duration \<Rightarrow> StatsEdge list \<Rightarrow> idleBarrier sys" where
  "idle_init name grp d outs =
     \<lparr>em = newIdleBarrier name grp d outs, bg = AtSelect, stopper = NotStopping,
      emitted = [], returned = 0\<rparr>"

subsection \<open>Periodic\<close>

definition periodic_signal :: "periodicBarrier sys \<Rightarrow> periodicBarrier sys result" where
  "periodic_signal s =
     (if stopper s \<noteq> NotStopping then Inl Blocked
      else (case chan_send (pb_stopC (em s)) of
              Inl x \<Rightarrow> Inl x
            | Inr c \<Rightarrow> Inr (s\<lparr>em := (em s)\<lparr>pb_stopC := c\<rparr>, stopper := AfterSignal\<rparr>)))"

fun periodic_fire :: "action \<Rightarrow> periodicBarrier sys \<Rightarrow> periodicBarrier sys result" where
  "periodic_fire (Deliver m) s =
     (if own_delete (pb_group (em s)) m then periodic_signal s
      else if stopper s \<noteq> NotStopping then Inl Blocked
      else (case periodicBarrier_receive (em s) m of
              Inl x \<Rightarrow> Inl x
            | Inr (out, n') \<Rightarrow> Inr (s\<lparr>em := n'\<rparr>)))"
| "periodic_fire StopSignal s = periodic_signal s"
| "periodic_fire StopTimer s =
     (if stopper s = AfterSignal then
        Inr (s\<lparr>em := (em s)\<lparr>pb_ticker := Timer_Stop (pb_ticker (em s))\<rparr>,
               stopper := AfterTimerStop\<rparr>)
      else Inl Blocked)"
| "periodic_fire StopWait s =
     (if stopper s = AfterTimerStop \<and> pb_wg (em s) = 0 then
        Inr (s\<lparr>stopper := NotStopping, returned := returned s + 1\<rparr>)
      else Inl Blocked)"
| "periodic_fire TimerFire s =
     (case Ticker_tick (pb_ticker (em s)) of
        Inl x \<Rightarrow> Inl x
      | Inr t \<Rightarrow> Inr (s\<lparr>em := (em s)\<lparr>pb_ticker := t\<rparr>\<rparr>))"
| "periodic_fire TaskTimer s =
     (if bg s = AtSelect \<and> t_C (pb_ticker (em s)) then
        Inr (s\<lparr>em := (em s)\<lparr>pb_ticker := (pb_ticker (em s))\<lparr>t_C := False\<rparr>\<rparr>, bg := AtEmit\<rparr>)
      else Inl Blocked)"
| "periodic_fire (TaskEmit nowT forward) s =
     (if bg s = AtEmit then
        Inr (s\<lparr>em := snd (periodicBarrier_emitBarrier (em s) nowT forward),
               bg := AtSelect,
               emitted := emitted s @ [BarrierMessage (pb_group (em s)) nowT]\<rparr>)
      else Inl Blocked)"
| "periodic_fire TaskReset s = Inl Blocked"
| "periodic_fire TaskStop s =
     (if bg s = AtSelect then
        (case chan_recv (pb_stopC (em s)) of
           Inl x \<Rightarrow> Inl x
         | Inr c \<Rightarrow>
             if pb_wg (em s) = 0 then Inl (Panic ''sync: negative WaitGroup counter'')
             else Inr (s\<lparr>em := (em s)\<lparr>pb_stopC := c, pb_wg := pb_wg (em s) - 1\<rparr>,
                        bg := Exited\<rparr>))
      else Inl Blocked)"

text \<open>The state when \<^verbatim>\<open>newPeriodicBarrier\<close> returns.\<close>

definition periodic_init ::
  "string \<Rightarrow> GroupInfo \<Rightarrow> duration \<Rightarrow> StatsEdge list \<Rightarrow> periodicBarrier sys result" where
  "periodic_init name grp d outs =
     (case newPeriodicBarrier name grp d outs of
        Inl x \<Rightarrow> Inl x
      | Inr n \<Rightarrow>
          Inr \<lparr>em = n, bg = AtSelect, stopper = NotStopping, emitted = [], returned = 0\<rparr>)"

subsection \<open>Schedules\<close>

text \<open>
  A schedule is a list of steps; it runs while every step can be taken. \<open>readings\<close> are
  the clock readings \<^verbatim>\<open>time.Now()\<close> of its emissions, in order.
\<close>

fun run :: "(action \<Rightarrow> 's \<Rightarrow> 's result) \<Rightarrow> action list \<Rightarrow> 's \<Rightarrow> 's result" where
  "run f [] s = Inr s"
| "run f (a # as) s = (case f a s of Inl x \<Rightarrow> Inl x | Inr s' \<Rightarrow> run f as s')"



section \<open>Running and stopped emitters\<close>





text \<open>
  What every schedule keeps: the wait group counts exactly the live background goroutine,
  and no \<^verbatim>\<open>Stop\<close> has returned while it lives.
\<close>

definition idle_inv :: "idleBarrier sys \<Rightarrow> bool" where
  "idle_inv s =
     (ib_wg (em s) = (if bg s = Exited then 0 else 1) \<and> (bg s = Exited \<or> returned s = 0))"

definition periodic_inv :: "periodicBarrier sys \<Rightarrow> bool" where
  "periodic_inv s =
     (pb_wg (em s) = (if bg s = Exited then 0 else 1) \<and> (bg s = Exited \<or> returned s = 0))"

section \<open>Sample values\<close>

definition groupA :: GroupInfo where
  "groupA = \<lparr>ID = ''host=A'', Tags = [(''host'', ''A'')]\<rparr>"

definition groupB :: GroupInfo where
  "groupB = \<lparr>ID = ''host=B'', Tags = [(''host'', ''B'')]\<rparr>"

definition firstA :: PointMeta where
  "firstA = \<lparr>Name = ''cpu''\<rparr>"

definition forward_ok :: "StatsEdge list \<Rightarrow> Message \<Rightarrow> error option" where
  "forward_ok outs m = None"

definition forward_fails :: "StatsEdge list \<Rightarrow> Message \<Rightarrow> error option" where
  "forward_fails outs m = Some (Error ''edge aborted'')"

section \<open>Unfolding rules\<close>

lemmas chan_defs = make_chan_def chan_close_def chan_send_def chan_recv_def

lemmas timer_defs = NewTimer_def NewTicker_def Timer_Reset_def Timer_Stop_def
  Timer_expire_def Ticker_tick_def

lemmas idle_defs = idleBarrier_Init_def newIdleBarrier_def idleBarrier_resetTimer_def
  idleBarrier_BeginBatch_def idleBarrier_BatchPoint_def idleBarrier_EndBatch_def
  idleBarrier_Barrier_def idleBarrier_Point_def idleBarrier_emitBarrier_def
  idleBarrier_Wait_def idleBarrier_Stop_def idleBarrier_DeleteGroup_def

lemmas periodic_defs = periodicBarrier_Init_def newPeriodicBarrier_def
  periodicBarrier_BeginBatch_def periodicBarrier_BatchPoint_def periodicBarrier_EndBatch_def
  periodicBarrier_Barrier_def periodicBarrier_Point_def periodicBarrier_emitBarrier_def
  periodicBarrier_Wait_def periodicBarrier_Stop_def periodicBarrier_DeleteGroup_def

lemmas sys_defs = idle_init_def periodic_init_def idle_signal_def periodic_signal_def
  own_delete_def groupA_def groupB_def firstA_def forward_ok_def forward_fails_def

lemmas node_defs = newBarrierNode_def newBarrier_def NewGroup_def heap_DeleteGroup_def
  emitter_DeleteGroup_def stopBarrierEmitter_def heap_Stop_def emitter_Stop_def

section \<open>Suppression of late messages\<close>

text \<open>
  C1. An emitter whose last-barrier timestamp is \<open>T\<close> (every constructed emitter holds
  one) drops a point, batch point or barrier whose time is strictly before \<open>T\<close>: the
  handler returns no message. It returns the message unchanged when the time is \<open>T\<close> or
  later; the idle emitter then also resets its timer, the periodic emitter changes nothing.
\<close>

theorem late_messages_dropped:
  "(ib_lastT n = Some T \<longrightarrow>
      idleBarrier_Point n t p =
        Inr (if t < T then (None, n) else (Some (PointMessage t p), idleBarrier_resetTimer n))
      \<and> idleBarrier_BatchPoint n t p =
        Inr (if t < T then (None, n)
             else (Some (BatchPointMessage t p), idleBarrier_resetTimer n))
      \<and> idleBarrier_Barrier n g t =
        Inr (if t < T then (None, n) else (Some (BarrierMessage g t), idleBarrier_resetTimer n)))
   \<and> (pb_lastT m = Some T \<longrightarrow>
      periodicBarrier_Point m t p =
        Inr (if t < T then (None, m) else (Some (PointMessage t p), m))
      \<and> periodicBarrier_BatchPoint m t p =
        Inr (if t < T then (None, m) else (Some (BatchPointMessage t p), m))
      \<and> periodicBarrier_Barrier m g t =
        Inr (if t < T then (None, m) else (Some (BarrierMessage g t), m)))"
  by (simp add: idleBarrier_Point_def idleBarrier_BatchPoint_def idleBarrier_Barrier_def
        periodicBarrier_Point_def periodicBarrier_BatchPoint_def periodicBarrier_Barrier_def)

theorem late_messages_dropped_witness:
  "(case newPeriodicBarrier ''cpu'' groupA 7 [0] of
      Inl x \<Rightarrow> False
    | Inr m0 \<Rightarrow>
        (let n = snd (idleBarrier_emitBarrier (newIdleBarrier ''cpu'' groupA 5 [0]) 100 forward_ok);
             m = snd (periodicBarrier_emitBarrier m0 100 forward_ok)
         in ib_lastT n = Some 100
            \<and> idleBarrier_Point n 99 ''x'' = Inr (None, n)
            \<and> idleBarrier_Point n 100 ''x'' =
                Inr (Some (PointMessage 100 ''x''), idleBarrier_resetTimer n)
            \<and> idleBarrier_BatchPoint n 99 ''x'' = Inr (None, n)
            \<and> idleBarrier_Barrier n groupA 101 =
                Inr (Some (BarrierMessage groupA 101), idleBarrier_resetTimer n)
            \<and> pb_lastT m = Some 100
            \<and> periodicBarrier_Point m 99 ''x'' = Inr (None, m)
            \<and> periodicBarrier_Point m 100 ''x'' = Inr (Some (PointMessage 100 ''x''), m)
            \<and> periodicBarrier_BatchPoint m 101 ''x'' =
                Inr (Some (BatchPointMessage 101 ''x''), m)
            \<and> periodicBarrier_Barrier m groupA 99 = Inr (None, m)))"
proof -
  obtain m0 where m0: "newPeriodicBarrier ''cpu'' groupA 7 [0] = Inr m0"
    by (simp add: periodic_defs timer_defs)
  let ?n = "snd (idleBarrier_emitBarrier (newIdleBarrier ''cpu'' groupA 5 [0]) 100 forward_ok)"
  let ?m = "snd (periodicBarrier_emitBarrier m0 100 forward_ok)"
  have l: "ib_lastT ?n = Some 100" "pb_lastT ?m = Some 100"
    by (simp_all add: idleBarrier_emitBarrier_def periodicBarrier_emitBarrier_def)
  from late_messages_dropped [of ?n 100 99 "''x''" groupA ?m]
    late_messages_dropped [of ?n 100 100 "''x''" groupA ?m]
    late_messages_dropped [of ?n 100 101 "''x''" groupA ?m] l m0
  show ?thesis by (simp add: Let_def)
qed

section \<open>Batch markers\<close>

text \<open>
  C9. Begin-batch and end-batch messages are returned unchanged by both emitters, whatever
  the last-barrier timestamp is, and the emitter is left as it was: no timer is reset, and
  in the transition system the whole state (timer, timestamp, background goroutine,
  emitted barriers) is the same after the handler as before.
\<close>

theorem batch_markers_pass_through:
  "idleBarrier_BeginBatch n p = Inr (Some (BeginBatchMessage p), n)
   \<and> idleBarrier_EndBatch n p = Inr (Some (EndBatchMessage p), n)
   \<and> periodicBarrier_BeginBatch m p = Inr (Some (BeginBatchMessage p), m)
   \<and> periodicBarrier_EndBatch m p = Inr (Some (EndBatchMessage p), m)
   \<and> idle_fire (Deliver (BeginBatchMessage p)) s =
       (if stopper s = NotStopping then Inr s else Inl Blocked)
   \<and> idle_fire (Deliver (EndBatchMessage p)) s =
       (if stopper s = NotStopping then Inr s else Inl Blocked)
   \<and> periodic_fire (Deliver (BeginBatchMessage p)) s' =
       (if stopper s' = NotStopping then Inr s' else Inl Blocked)
   \<and> periodic_fire (Deliver (EndBatchMessage p)) s' =
       (if stopper s' = NotStopping then Inr s' else Inl Blocked)"
  by (simp add: idleBarrier_BeginBatch_def idleBarrier_EndBatch_def
        periodicBarrier_BeginBatch_def periodicBarrier_EndBatch_def own_delete_def)

section \<open>Construction\<close>

text \<open>
  C4. \<^verbatim>\<open>newBarrierNode\<close> fails exactly when the idle duration and the period are both
  zero, and then with the configuration error: no node is returned, so no group is seen
  and no emitter built. With a non-zero idle duration and a zero period it returns a node
  with no stop function registered, and that node builds an idle emitter for every group.
\<close>

theorem newBarrierNode_validation:
  "((\<exists>e. newBarrierNode c = Inl e) \<longleftrightarrow> (Idle c = 0 \<and> Period c = 0))
   \<and> (Idle c = 0 \<and> Period c = 0 \<longrightarrow>
        newBarrierNode c =
          Inl (Error ''barrier node must have either a non zero idle or a non zero period''))
   \<and> (Idle c \<noteq> 0 \<and> Period c = 0 \<longrightarrow>
        (\<exists>n. newBarrierNode c = Inr n \<and> bn_b n = c \<and> bn_barrierStopper n = []
           \<and> (\<forall>grp first. newBarrier n grp first =
                 Inr (IdleE (newIdleBarrier (Name first) grp (Idle c) (bn_outs n))))))"
  by (auto simp: newBarrierNode_def newBarrier_def)

theorem newBarrierNode_validation_witness:
  "newBarrierNode \<lparr>Idle = 0, Period = 0\<rparr> =
     Inl (Error ''barrier node must have either a non zero idle or a non zero period'')
   \<and> (\<exists>n. newBarrierNode \<lparr>Idle = 5000000000, Period = 0\<rparr> = Inr n
         \<and> bn_barrierStopper n = []
         \<and> newBarrier n groupA firstA =
             Inr (IdleE (newIdleBarrier ''cpu'' groupA 5000000000 (bn_outs n))))"
  using newBarrierNode_validation [of "\<lparr>Idle = 0, Period = 0\<rparr>"]
    newBarrierNode_validation [of "\<lparr>Idle = 5000000000, Period = 0\<rparr>"]
  by (auto simp: firstA_def)

text \<open>
  C5. A node whose idle duration and period are both non-zero is accepted by the
  constructor, and for every group \<^verbatim>\<open>newBarrier\<close> builds an idle emitter armed with the
  idle duration; the period is not read (any other period gives the same emitter), and
  \<^verbatim>\<open>NewGroup\<close> puts that idle emitter on the heap and registers its stop function.
\<close>

theorem idle_takes_precedence:
  "Idle (bn_b n) \<noteq> 0 \<Longrightarrow> Period (bn_b n) \<noteq> 0 \<Longrightarrow>
     (\<exists>n0. newBarrierNode (bn_b n) = Inr n0)
     \<and> newBarrier n grp first =
         Inr (IdleE (newIdleBarrier (Name first) grp (Idle (bn_b n)) (bn_outs n)))
     \<and> newBarrier (n\<lparr>bn_b := (bn_b n)\<lparr>Period := p\<rparr>\<rparr>) grp first = newBarrier n grp first
     \<and> (\<exists>n'. NewGroup n h grp first =
           Inr (length h, n',
                h @ [IdleE (newIdleBarrier (Name first) grp (Idle (bn_b n)) (bn_outs n))])
           \<and> map_of (bn_barrierStopper n') (ID grp) = Some (length h))"
  by (auto simp: newBarrierNode_def newBarrier_def NewGroup_def update_Some_unfold)

theorem idle_takes_precedence_witness:
  "\<exists>n. newBarrierNode \<lparr>Idle = 5, Period = 7\<rparr> = Inr n
      \<and> newBarrier n groupA firstA = Inr (IdleE (newIdleBarrier ''cpu'' groupA 5 (bn_outs n)))
      \<and> (\<exists>n'. NewGroup n [] groupA firstA =
            Inr (0, n', [IdleE (newIdleBarrier ''cpu'' groupA 5 (bn_outs n))]))"
  using idle_takes_precedence
    [of "\<lparr>bn_b = \<lparr>Idle = 5, Period = 7\<rparr>, bn_outs = [], bn_barrierStopper = []\<rparr>"
        groupA firstA 7 "[]"]
  by (auto simp: newBarrierNode_def firstA_def)

text \<open>
  C10. For a node whose configuration the constructor accepted, \<^verbatim>\<open>NewGroup\<close> and
  \<^verbatim>\<open>newBarrier\<close> return no error for any group: the branch marked unreachable is not
  reached. The call returns a receiver whenever the idle duration is non-zero or the period
  is positive (with a zero idle duration and a negative period \<^verbatim>\<open>time.NewTicker\<close>
  panics, which is not an error return).
\<close>

theorem NewGroup_returns_no_error:
  "newBarrierNode (bn_b n) = Inr n0 \<Longrightarrow>
     (\<forall>msg. NewGroup n h grp first \<noteq> Inl (Error msg))
     \<and> (\<forall>msg. newBarrier n grp first \<noteq> Inl (Error msg))
     \<and> (Idle (bn_b n) \<noteq> 0 \<or> 0 < Period (bn_b n) \<longrightarrow> (\<exists>r. NewGroup n h grp first = Inr r))"
  by (auto simp: newBarrierNode_def newBarrier_def NewGroup_def newPeriodicBarrier_def
        NewTicker_def split: if_splits sum.splits)

theorem NewGroup_returns_no_error_witness:
  "newBarrierNode \<lparr>Idle = 0, Period = 7\<rparr> =
     Inr \<lparr>bn_b = \<lparr>Idle = 0, Period = 7\<rparr>, bn_outs = [], bn_barrierStopper = []\<rparr>
   \<and> (\<exists>r. NewGroup \<lparr>bn_b = \<lparr>Idle = 0, Period = 7\<rparr>, bn_outs = [0],
                     bn_barrierStopper = []\<rparr> [] groupA firstA = Inr r)
   \<and> (\<forall>msg. newBarrier \<lparr>bn_b = \<lparr>Idle = 0, Period = 7\<rparr>, bn_outs = [0],
                       bn_barrierStopper = []\<rparr> groupA firstA \<noteq> Inl (Error msg))"
proof -
  have c: "newBarrierNode \<lparr>Idle = 0, Period = 7\<rparr> =
      Inr \<lparr>bn_b = \<lparr>Idle = 0, Period = 7\<rparr>, bn_outs = [], bn_barrierStopper = []\<rparr>"
    by (simp add: newBarrierNode_def)
  from NewGroup_returns_no_error
    [of "\<lparr>bn_b = \<lparr>Idle = 0, Period = 7\<rparr>, bn_outs = [0], bn_barrierStopper = []\<rparr>"
        "\<lparr>bn_b = \<lparr>Idle = 0, Period = 7\<rparr>, bn_outs = [], bn_barrierStopper = []\<rparr>"
        "[]" groupA firstA] c
  show ?thesis by simp
qed

section \<open>Group deletion\<close>






section \<open>Shutdown after a deletion\<close>

text \<open>
  C3. The claim asks that an emitter stopped by a group deletion is not stopped again at
  shutdown, or that the second stop is harmless. The code keeps the stop function in
  \<^verbatim>\<open>barrierStopper\<close> after the deletion, so \<^verbatim>\<open>stopBarrierEmitter\<close> calls it again, and
  for an idle emitter the second \<^verbatim>\<open>close(n.stopC)\<close> panics: a node with idle duration 5,
  one group, the deletion of that group, then shutdown.
\<close>

theorem shutdown_after_delete_panics:
  "(case newBarrierNode \<lparr>Idle = 5, Period = 0\<rparr> of
      Inl x \<Rightarrow> Inl x
    | Inr n \<Rightarrow>
        (case NewGroup n [] groupA firstA of
           Inl x \<Rightarrow> Inl x
         | Inr (a, n', h) \<Rightarrow>
             (case heap_DeleteGroup a (ID groupA) h of
                Inl x \<Rightarrow> Inl x
              | Inr (m, h') \<Rightarrow> stopBarrierEmitter n' h')))
   = Inl (Panic ''close of closed channel'')"
  by (simp add: node_defs idle_defs chan_defs timer_defs groupA_def firstA_def)

text \<open>
  The periodic emitter takes the second stop: its stop channel is buffered and was
  emptied by the goroutine, so the second send does not block, and the wait group is
  already at zero.
\<close>

lemma shutdown_after_delete_periodic:
  "(case newBarrierNode \<lparr>Idle = 0, Period = 5\<rparr> of
      Inl x \<Rightarrow> Inl x
    | Inr n \<Rightarrow>
        (case NewGroup n [] groupA firstA of
           Inl x \<Rightarrow> Inl x
         | Inr (a, n', h) \<Rightarrow>
             (case heap_DeleteGroup a (ID groupA) h of
                Inl x \<Rightarrow> Inl x
              | Inr (m, h') \<Rightarrow>
                  (case stopBarrierEmitter n' h' of
                     Inl x \<Rightarrow> Inl x
                   | Inr h'' \<Rightarrow> Inr (length h'')))))
   = Inr 1"
  by (simp add: node_defs periodic_defs chan_defs timer_defs groupA_def firstA_def)

lemma idleBarrier_Stop_twice:
  "idleBarrier_Stop n = Inr n' \<Longrightarrow> idleBarrier_Stop n' = Inl (Panic ''close of closed channel'')"
  by (auto simp: idle_defs chan_defs split: if_splits sum.splits)

section \<open>Schedules of one emitter\<close>

lemma run_append:
  "run f (as @ bs) s = (case run f as s of Inl x \<Rightarrow> Inl x | Inr s' \<Rightarrow> run f bs s')"
  by (induction as arbitrary: s) (auto split: sum.splits)



subsection \<open>Idle emitter\<close>

lemma idle_receive_frame:
  "\<not> own_delete (ib_group n) m \<Longrightarrow> idleBarrier_receive n m = Inr (out, n') \<Longrightarrow>
     ib_wg n' = ib_wg n \<and> ib_lastT n' = ib_lastT n \<and> ib_stopC n' = ib_stopC n
     \<and> ib_group n' = ib_group n"
  by (cases m)
     (auto simp: own_delete_def idle_defs split: option.splits if_splits)



lemma idle_inv_init: "idle_inv (idle_init name grp d outs)"
  by (simp add: idle_inv_def idle_init_def idle_defs)

lemma idle_inv_fire: "idle_fire a s = Inr s' \<Longrightarrow> idle_inv s \<Longrightarrow> idle_inv s'"
  by (cases a)
     (auto simp: idle_inv_def idle_signal_def idle_defs chan_defs timer_defs
        dest: idle_receive_frame split: if_splits sum.splits)

lemma idle_inv_run: "run idle_fire as s = Inr s' \<Longrightarrow> idle_inv s \<Longrightarrow> idle_inv s'"
  by (induction as arbitrary: s) (auto split: sum.splits dest: idle_inv_fire)

lemma idle_exited_fire:
  "idle_fire a s = Inr s' \<Longrightarrow> bg s = Exited \<Longrightarrow> bg s' = Exited \<and> emitted s' = emitted s"
  by (cases a) (auto simp: idle_signal_def split: if_splits sum.splits)

lemma idle_exited_run:
  "run idle_fire as s = Inr s' \<Longrightarrow> bg s = Exited \<Longrightarrow> bg s' = Exited \<and> emitted s' = emitted s"
proof (induction as arbitrary: s)
  case Nil
  then show ?case by simp
next
  case (Cons a as)
  then obtain s1 where a: "idle_fire a s = Inr s1" and r: "run idle_fire as s1 = Inr s'"
    by (auto split: sum.splits)
  from idle_exited_fire [OF a Cons.prems(2)] Cons.IH [OF r] show ?case by simp
qed

subsection \<open>Periodic emitter\<close>

lemma periodic_receive_frame:
  "\<not> own_delete (pb_group n) m \<Longrightarrow> periodicBarrier_receive n m = Inr (out, n') \<Longrightarrow>
     pb_wg n' = pb_wg n \<and> pb_lastT n' = pb_lastT n \<and> pb_stopC n' = pb_stopC n
     \<and> pb_group n' = pb_group n \<and> pb_ticker n' = pb_ticker n"
  by (cases m)
     (auto simp: own_delete_def periodic_defs split: option.splits if_splits)



lemma periodic_inv_init: "periodic_init name grp d outs = Inr s \<Longrightarrow> periodic_inv s"
  by (auto simp: periodic_inv_def periodic_init_def periodic_defs split: sum.splits)

lemma periodic_inv_fire: "periodic_fire a s = Inr s' \<Longrightarrow> periodic_inv s \<Longrightarrow> periodic_inv s'"
  by (cases a)
     (auto simp: periodic_inv_def periodic_signal_def periodic_defs chan_defs timer_defs
        dest: periodic_receive_frame split: if_splits sum.splits)

lemma periodic_inv_run: "run periodic_fire as s = Inr s' \<Longrightarrow> periodic_inv s \<Longrightarrow> periodic_inv s'"
  by (induction as arbitrary: s) (auto split: sum.splits dest: periodic_inv_fire)

lemma periodic_exited_fire:
  "periodic_fire a s = Inr s' \<Longrightarrow> bg s = Exited \<Longrightarrow> bg s' = Exited \<and> emitted s' = emitted s"
  by (cases a) (auto simp: periodic_signal_def split: if_splits sum.splits)

lemma periodic_exited_run:
  "run periodic_fire as s = Inr s' \<Longrightarrow> bg s = Exited \<Longrightarrow> bg s' = Exited \<and> emitted s' = emitted s"
proof (induction as arbitrary: s)
  case Nil
  then show ?case by simp
next
  case (Cons a as)
  then obtain s1 where a: "periodic_fire a s = Inr s1" and r: "run periodic_fire as s1 = Inr s'"
    by (auto split: sum.splits)
  from periodic_exited_fire [OF a Cons.prems(2)] Cons.IH [OF r] show ?case by simp
qed


lemma idle_wait_exited:
  "run idle_fire as (idle_init name grp d outs) = Inr s \<Longrightarrow>
     (ib_wg (em s) = 0 \<longrightarrow> bg s = Exited) \<and> (0 < returned s \<longrightarrow> bg s = Exited)"
  using idle_inv_run [OF _ idle_inv_init, of as name grp d outs s]
  by (auto simp: idle_inv_def split: if_splits)

lemma periodic_wait_exited:
  "periodic_init name grp d outs = Inr p0 \<Longrightarrow> run periodic_fire as p0 = Inr s \<Longrightarrow>
     (pb_wg (em s) = 0 \<longrightarrow> bg s = Exited) \<and> (0 < returned s \<longrightarrow> bg s = Exited)"
  using periodic_inv_run [OF _ periodic_inv_init, of as p0 s name grp d outs]
  by (auto simp: periodic_inv_def split: if_splits)

text \<open>
  The summary of \<^verbatim>\<open>Stop\<close> used by the handlers is one schedule of the transition
  system: signal, stop the timer, the goroutine takes its stop case, the wait returns.
\<close>

lemma idleBarrier_Stop_schedule:
  "stopper s = NotStopping \<Longrightarrow> bg s = AtSelect \<Longrightarrow> ib_wg (em s) = 1 \<Longrightarrow>
     run idle_fire [StopSignal, StopTimer, TaskStop, StopWait] s =
       (case idleBarrier_Stop (em s) of
          Inl x \<Rightarrow> Inl x
        | Inr n' \<Rightarrow> Inr (s\<lparr>em := n', bg := Exited, returned := returned s + 1\<rparr>))"
  by (auto simp: idle_signal_def idle_defs chan_defs timer_defs split: sum.splits)

lemma periodicBarrier_Stop_schedule:
  "stopper s = NotStopping \<Longrightarrow> bg s = AtSelect \<Longrightarrow> pb_wg (em s) = 1 \<Longrightarrow>
     run periodic_fire [StopSignal, StopTimer, TaskStop, StopWait] s =
       (case periodicBarrier_Stop (em s) of
          Inl x \<Rightarrow> Inl x
        | Inr n' \<Rightarrow> Inr (s\<lparr>em := n', bg := Exited, returned := returned s + 1\<rparr>))"
  by (auto simp: periodic_signal_def periodic_defs chan_defs timer_defs split: sum.splits)

section \<open>Stop\<close>

text \<open>
  C2. In every schedule of an emitter, from its construction on: when \<^verbatim>\<open>wg.Wait()\<close>, the
  last statement of \<^verbatim>\<open>Stop\<close>, returns, the background goroutine has exited; and once a
  call of \<^verbatim>\<open>Stop\<close> has returned, the goroutine stays exited and no schedule, whatever
  messages arrive and whatever the timer or ticker does, adds a barrier to the emitted
  ones. Both for the idle and for the periodic emitter.
\<close>

theorem Stop_terminal_and_blocking:
  "(run idle_fire as (idle_init name grp d outs) = Inr s \<longrightarrow>
      (\<forall>s'. idle_fire StopWait s = Inr s' \<longrightarrow> bg s = Exited)
      \<and> (0 < returned s \<longrightarrow>
           bg s = Exited
           \<and> (\<forall>bs s'. run idle_fire bs s = Inr s' \<longrightarrow> emitted s' = emitted s)))
   \<and> (periodic_init name grp d outs = Inr p0 \<and> run periodic_fire as p0 = Inr p \<longrightarrow>
      (\<forall>p'. periodic_fire StopWait p = Inr p' \<longrightarrow> bg p = Exited)
      \<and> (0 < returned p \<longrightarrow>
           bg p = Exited
           \<and> (\<forall>bs p'. run periodic_fire bs p = Inr p' \<longrightarrow> emitted p' = emitted p)))"
proof (intro conjI impI allI)
  fix s' assume "run idle_fire as (idle_init name grp d outs) = Inr s" "idle_fire StopWait s = Inr s'"
  then show "bg s = Exited"
    using idle_wait_exited [of as name grp d outs s] by (auto split: if_splits)
next
  assume "run idle_fire as (idle_init name grp d outs) = Inr s" "0 < returned s"
  then show "bg s = Exited" using idle_wait_exited [of as name grp d outs s] by simp
next
  fix bs s'
  assume "run idle_fire as (idle_init name grp d outs) = Inr s" "0 < returned s"
    "run idle_fire bs s = Inr s'"
  then show "emitted s' = emitted s"
    using idle_wait_exited [of as name grp d outs s] idle_exited_run [of bs s s'] by simp
next
  fix p' assume "periodic_init name grp d outs = Inr p0 \<and> run periodic_fire as p0 = Inr p"
    "periodic_fire StopWait p = Inr p'"
  then show "bg p = Exited"
    using periodic_wait_exited [of name grp d outs p0 as p] by (auto split: if_splits)
next
  assume "periodic_init name grp d outs = Inr p0 \<and> run periodic_fire as p0 = Inr p"
    "0 < returned p"
  then show "bg p = Exited" using periodic_wait_exited [of name grp d outs p0 as p] by simp
next
  fix bs p'
  assume "periodic_init name grp d outs = Inr p0 \<and> run periodic_fire as p0 = Inr p"
    "0 < returned p" "run periodic_fire bs p = Inr p'"
  then show "emitted p' = emitted p"
    using periodic_wait_exited [of name grp d outs p0 as p] periodic_exited_run [of bs p p']
    by simp
qed

theorem Stop_terminal_and_blocking_witness:
  "(case run idle_fire [TimerFire, StopSignal, StopTimer, TaskStop, StopWait]
           (idle_init ''cpu'' groupA 5 [0]) of
      Inl x \<Rightarrow> False
    | Inr s \<Rightarrow>
        0 < returned s \<and> bg s = Exited
        \<and> (case run idle_fire [Deliver (PointMessage 7 ''x''), TimerFire] s of
             Inl x \<Rightarrow> False
           | Inr s' \<Rightarrow> t_C (ib_timer (em s')) \<and> emitted s' = emitted s))
   \<and> (case periodic_init ''cpu'' groupA 5 [0] of
        Inl x \<Rightarrow> False
      | Inr p0 \<Rightarrow>
          (case run periodic_fire [TimerFire, StopSignal, StopTimer, TaskStop, StopWait] p0 of
             Inl x \<Rightarrow> False
           | Inr p \<Rightarrow>
               0 < returned p \<and> bg p = Exited
               \<and> (case run periodic_fire [Deliver (PointMessage 7 ''x'')] p of
                    Inl x \<Rightarrow> False
                  | Inr p' \<Rightarrow> t_C (pb_ticker (em p')) \<and> emitted p' = emitted p)))"
proof -
  let ?as = "[TimerFire, StopSignal, StopTimer, TaskStop, StopWait]"
  have "case run idle_fire ?as (idle_init ''cpu'' groupA 5 [0]) of
          Inl x \<Rightarrow> False
        | Inr s \<Rightarrow>
            0 < returned s
            \<and> (case run idle_fire [Deliver (PointMessage 7 ''x''), TimerFire] s of
                 Inl x \<Rightarrow> False
               | Inr s' \<Rightarrow> t_C (ib_timer (em s')))"
    by (simp add: sys_defs idle_defs chan_defs timer_defs)
  then obtain s s' where s: "run idle_fire ?as (idle_init ''cpu'' groupA 5 [0]) = Inr s"
    and rs: "0 < returned s"
    and s': "run idle_fire [Deliver (PointMessage 7 ''x''), TimerFire] s = Inr s'"
    and cs: "t_C (ib_timer (em s'))"
    by (auto split: sum.splits)
  have "case periodic_init ''cpu'' groupA 5 [0] of
          Inl x \<Rightarrow> False
        | Inr p0 \<Rightarrow>
            (case run periodic_fire ?as p0 of
               Inl x \<Rightarrow> False
             | Inr p \<Rightarrow>
                 0 < returned p
                 \<and> (case run periodic_fire [Deliver (PointMessage 7 ''x'')] p of
                      Inl x \<Rightarrow> False
                    | Inr p' \<Rightarrow> t_C (pb_ticker (em p'))))"
    by (simp add: sys_defs periodic_defs chan_defs timer_defs)
  then obtain p0 p p' where p0: "periodic_init ''cpu'' groupA 5 [0] = Inr p0"
    and p: "run periodic_fire ?as p0 = Inr p" and rp: "0 < returned p"
    and p': "run periodic_fire [Deliver (PointMessage 7 ''x'')] p = Inr p'"
    and cp: "t_C (pb_ticker (em p'))"
    by (auto split: sum.splits)
  from Stop_terminal_and_blocking [of ?as "''cpu''" groupA 5 "[0]" s p0 p]
  have "bg s = Exited" "emitted s' = emitted s" "bg p = Exited" "emitted p' = emitted p"
    using s rs s' p0 p rp p' by blast+
  then show ?thesis using s rs s' cs p0 p rp p' cp by simp
qed

section \<open>The last-barrier timestamp\<close>



section \<open>Failure of the output edge\<close>

text \<open>
  C8 as stated says the failure is reported or logged. It is not: the goroutine drops what
  \<^verbatim>\<open>emitBarrier\<close> returns, and the step with a failing \<^verbatim>\<open>edge.Forward\<close> ends in the very
  state the step with a succeeding one ends in, so nothing records the failure.
\<close>

theorem emission_failure_leaves_no_trace:
  "(case run idle_fire [TimerFire, TaskTimer] (idle_init ''cpu'' groupA 5 [0]) of
      Inl x \<Rightarrow> False
    | Inr s0 \<Rightarrow>
        fst (idleBarrier_emitBarrier (em s0) 10 forward_fails) = Some (Error ''edge aborted'')
        \<and> (case idle_fire (TaskEmit 10 forward_fails) s0 of
             Inl x \<Rightarrow> False
           | Inr s \<Rightarrow> idle_fire (TaskEmit 10 forward_ok) s0 = Inr s))"
  by (simp add: sys_defs idle_defs chan_defs timer_defs)


text \<open>
  C8, amended. The error of \<^verbatim>\<open>edge.Forward\<close> is discarded (the step does not depend on
  it) and the goroutine goes on: after the emission, failed or not, the idle emitter
  re-arms its timer, and when the timer fires next (for the periodic emitter: when the
  ticker, unless stopped, ticks next) the goroutine takes it and emits again.
\<close>

theorem emission_failure_discarded:
  "idle_fire (TaskEmit nowT forward) s = idle_fire (TaskEmit nowT forward_ok) s
   \<and> periodic_fire (TaskEmit nowT forward) p = periodic_fire (TaskEmit nowT forward_ok) p
   \<and> (bg s = AtEmit \<longrightarrow>
        (\<exists>s'. run idle_fire [TaskEmit nowT forward, TaskReset, TimerFire, TaskTimer] s = Inr s'
           \<and> bg s' = AtEmit \<and> ib_wg (em s') = ib_wg (em s)
           \<and> emitted s' = emitted s @ [BarrierMessage (ib_group (em s)) nowT]
           \<and> (\<exists>s''. idle_fire (TaskEmit nowT' forward') s' = Inr s''
                 \<and> emitted s'' = emitted s' @ [BarrierMessage (ib_group (em s)) nowT'])))
   \<and> (bg p = AtEmit \<and> t_armed (pb_ticker (em p)) \<noteq> None \<longrightarrow>
        (\<exists>p'. run periodic_fire [TaskEmit nowT forward, TimerFire, TaskTimer] p = Inr p'
           \<and> bg p' = AtEmit \<and> pb_wg (em p') = pb_wg (em p)
           \<and> emitted p' = emitted p @ [BarrierMessage (pb_group (em p)) nowT]
           \<and> (\<exists>p''. periodic_fire (TaskEmit nowT' forward') p' = Inr p''
                 \<and> emitted p'' = emitted p' @ [BarrierMessage (pb_group (em p)) nowT'])))"
  by (auto simp: idle_defs periodic_defs timer_defs)

theorem emission_failure_discarded_witness:
  "(case run idle_fire [TimerFire, TaskTimer] (idle_init ''cpu'' groupA 5 [0]) of
      Inl x \<Rightarrow> False
    | Inr s \<Rightarrow>
        bg s = AtEmit
        \<and> (case run idle_fire [TaskEmit 10 forward_fails, TaskReset, TimerFire, TaskTimer] s of
             Inl x \<Rightarrow> False
           | Inr s' \<Rightarrow>
               bg s' = AtEmit \<and> emitted s' = [BarrierMessage groupA 10]
               \<and> (case idle_fire (TaskEmit 20 forward_fails) s' of
                    Inl x \<Rightarrow> False
                  | Inr s'' \<Rightarrow>
                      emitted s'' = [BarrierMessage groupA 10, BarrierMessage groupA 20])))
   \<and> (case periodic_init ''cpu'' groupA 7 [0] of
        Inl x \<Rightarrow> False
      | Inr p0 \<Rightarrow>
          (case run periodic_fire [TimerFire, TaskTimer] p0 of
             Inl x \<Rightarrow> False
           | Inr p \<Rightarrow>
               bg p = AtEmit \<and> t_armed (pb_ticker (em p)) \<noteq> None
               \<and> (case run periodic_fire [TaskEmit 10 forward_fails, TimerFire, TaskTimer] p of
                    Inl x \<Rightarrow> False
                  | Inr p' \<Rightarrow>
                      bg p' = AtEmit \<and> emitted p' = [BarrierMessage groupA 10]
                      \<and> (case periodic_fire (TaskEmit 20 forward_fails) p' of
                           Inl x \<Rightarrow> False
                         | Inr p'' \<Rightarrow>
                             emitted p'' =
                               [BarrierMessage groupA 10, BarrierMessage groupA 20]))))"
proof -
  let ?i = "idle_init ''cpu'' groupA 5 [0]"
  have "case run idle_fire [TimerFire, TaskTimer] ?i of
          Inl x \<Rightarrow> False
        | Inr s \<Rightarrow> bg s = AtEmit \<and> emitted s = [] \<and> ib_group (em s) = groupA"
    by (simp add: sys_defs idle_defs chan_defs timer_defs)
  then obtain s where s: "run idle_fire [TimerFire, TaskTimer] ?i = Inr s"
    and bs: "bg s = AtEmit" and es: "emitted s = []" and gs: "ib_group (em s) = groupA"
    by (auto split: sum.splits)
  have "case periodic_init ''cpu'' groupA 7 [0] of
          Inl x \<Rightarrow> False
        | Inr p0 \<Rightarrow>
            (case run periodic_fire [TimerFire, TaskTimer] p0 of
               Inl x \<Rightarrow> False
             | Inr p \<Rightarrow>
                 bg p = AtEmit \<and> t_armed (pb_ticker (em p)) \<noteq> None \<and> emitted p = []
                 \<and> pb_group (em p) = groupA)"
    by (simp add: sys_defs periodic_defs chan_defs timer_defs)
  then obtain p0 p where p0: "periodic_init ''cpu'' groupA 7 [0] = Inr p0"
    and p: "run periodic_fire [TimerFire, TaskTimer] p0 = Inr p"
    and bp: "bg p = AtEmit" and ap: "t_armed (pb_ticker (em p)) \<noteq> None"
    and ep: "emitted p = []" and gp: "pb_group (em p) = groupA"
    by (auto split: sum.splits)
  from emission_failure_discarded
    [where s = s and p = p and nowT = 10 and forward = forward_fails and nowT' = 20
       and forward' = forward_fails] bs bp ap
  obtain s' s'' p' p'' where
    "run idle_fire [TaskEmit 10 forward_fails, TaskReset, TimerFire, TaskTimer] s = Inr s'"
    "bg s' = AtEmit" "emitted s' = emitted s @ [BarrierMessage (ib_group (em s)) 10]"
    "idle_fire (TaskEmit 20 forward_fails) s' = Inr s''"
    "emitted s'' = emitted s' @ [BarrierMessage (ib_group (em s)) 20]"
    "run periodic_fire [TaskEmit 10 forward_fails, TimerFire, TaskTimer] p = Inr p'"
    "bg p' = AtEmit" "emitted p' = emitted p @ [BarrierMessage (pb_group (em p)) 10]"
    "periodic_fire (TaskEmit 20 forward_fails) p' = Inr p''"
    "emitted p'' = emitted p' @ [BarrierMessage (pb_group (em p)) 20]"
    by blast
  then show ?thesis using s bs es gs p0 p bp ap ep gp by simp
qed


end
